theory Spec2Isabelle
  imports Main "HOL-Library.Char_ord" "HOL-Library.List_Lexorder"
begin

section \<open>Python values used by the scripts\<close>

text \<open>
  The scripts are Python 2 (\<^verbatim>\<open>iteritems\<close>). Integers are unbounded (\<open>int\<close>), strings
  are \<open>string\<close>. Exceptions are values of \<open>exn\<close>; a function that can raise returns
  \<open>exn + 'a\<close> with \<open>Inl\<close> for the raised exception.
\<close>

datatype exn = ValueError string | OSError string | IndexError

text \<open>\<^verbatim>\<open>'{}'.format(n)\<close> for an integer: its decimal digits, with a sign when negative.\<close>

fun dec :: "nat \<Rightarrow> string" where
  "dec n = (if n < 10 then [char_of (48 + n)] else dec (n div 10) @ [char_of (48 + n mod 10)])"

declare dec.simps [simp del]

definition str_int :: "int \<Rightarrow> string" where
  "str_int i = (if i < 0 then CHR ''-'' # dec (nat (- i)) else dec (nat i))"

definition str_bool :: "bool \<Rightarrow> string" where
  "str_bool b = (if b then ''True'' else ''False'')"

definition NL :: char where
  "NL = CHR 0x0A"

definition TAB :: char where
  "TAB = CHR 0x09"

section \<open>optimisation/__init__.py: check_directory\<close>

text \<open>
  The operating system as \<^verbatim>\<open>check_directory\<close> sees it. \<open>'fs\<close> is the state of the
  file system. \<open>isdir\<close> is \<^verbatim>\<open>os.path.isdir\<close>; \<open>makedirs p fs\<close> is \<^verbatim>\<open>os.makedirs(p)\<close>: it
  returns \<open>True\<close> and the new file system when the directory was created and \<open>False\<close>
  when it raised \<^verbatim>\<open>OSError\<close> or \<^verbatim>\<open>IOError\<close> (the file system may have changed all the
  same: leading directories may have been created). \<open>join\<close> is \<^verbatim>\<open>os.path.join\<close> and
  \<open>script_pth\<close> is \<^verbatim>\<open>os.path.dirname(__file__)\<close>, the package directory.
\<close>

record 'fs os_api =
  isdir :: "'fs \<Rightarrow> string \<Rightarrow> bool"
  makedirs :: "string \<Rightarrow> 'fs \<Rightarrow> bool \<times> 'fs"
  join :: "string \<Rightarrow> string \<Rightarrow> string"
  script_pth :: string

definition unable_msg :: "string \<Rightarrow> string" where
  "unable_msg p = ''Unable to create directory <'' @ p @ ''> to store log files in''"

definition check_directory ::
  "'fs os_api \<Rightarrow> string \<Rightarrow> string \<Rightarrow> 'fs \<Rightarrow> (exn + string) \<times> 'fs" where
  "check_directory os pth_to_check default_folder_name fs =
     (if \<not> isdir os fs pth_to_check then
        (case makedirs os pth_to_check fs of
           (True, fs1) \<Rightarrow> (Inr pth_to_check, fs1)
         | (False, fs1) \<Rightarrow>
             (let pth_to_check' = join os (script_pth os) default_folder_name in
              if \<not> isdir os fs1 pth_to_check' then
                (case makedirs os pth_to_check' fs1 of
                   (True, fs2) \<Rightarrow> (Inr pth_to_check', fs2)
                 | (False, fs2) \<Rightarrow> (Inl (OSError (unable_msg pth_to_check')), fs2))
              else (Inr pth_to_check', fs1)))
      else (Inr pth_to_check, fs))"

text \<open>What \<^verbatim>\<open>os.makedirs\<close> promises: when it returns, the directory exists.\<close>

definition makedirs_creates :: "'fs os_api \<Rightarrow> bool" where
  "makedirs_creates os = (\<forall>p fs fs'. makedirs os p fs = (True, fs') \<longrightarrow> isdir os fs' p)"

text \<open>
  A small operating system to run the definitions on: the file system is the list of
  its directories, and a directory can be created unless its path starts with \<open>/ro\<close>.
\<close>

definition demo_os :: "string list os_api" where
  "demo_os = \<lparr> isdir = (\<lambda>fs p. p \<in> set fs),
       makedirs = (\<lambda>p fs. if take 3 p = ''/ro'' \<or> p \<in> set fs then (False, fs) else (True, p # fs)),
       join = (\<lambda>a b. a @ ''/'' @ b),
       script_pth = ''/pkg/optimisation'' \<rparr>"

section \<open>optimisation/__init__.py: class Logger\<close>

datatype level = DEBUG | INFO | WARNING | ERROR | CRITICAL

text \<open>
  What a \<^verbatim>\<open>Logger\<close> does to the \<^verbatim>\<open>logging\<close> module, in order: a record handed to the
  underlying logger, a flush of the progress or error handler, the removal of the debug
  handler, the closing of a file handler (named by its path), \<^verbatim>\<open>logging.shutdown()\<close>.
\<close>

datatype log_action =
  Emit level string
  | FlushProgress
  | FlushError
  | RemoveDebugHandler
  | CloseHandler string
  | Shutdown

record logger =
  warning_count :: int
  error_count :: int
  critical_count :: int
  pth_logs :: string
  pth_debug_log :: "string option"
  pth_progress_log :: "string option"
  pth_error_log :: "string option"
  debug_mode :: bool
  file_handlers :: "string list"
  actions :: "log_action list"

text \<open>
  \<^verbatim>\<open>optimisation.constants.Logging\<close> is not among the sources: the names it gives are
  parameters. \<open>parent_pth\<close> and \<open>now\<close> are the directory of the module and
  \<^verbatim>\<open>time.strftime('%Y%m%d_%H%M%S')\<close>, read by \<^verbatim>\<open>check_file_paths\<close>.
\<close>

record log_constants =
  lc_debug :: string
  lc_progress :: string
  lc_error :: string
  lc_extension :: string
  parent_pth :: string
  now :: string

definition emit :: "level \<Rightarrow> string \<Rightarrow> logger \<Rightarrow> logger" where
  "emit l msg lg = lg\<lparr>actions := actions lg @ [Emit l msg]\<rparr>"

definition debug :: "string \<Rightarrow> logger \<Rightarrow> logger" where
  "debug msg lg = emit DEBUG msg lg"

definition info :: "string \<Rightarrow> logger \<Rightarrow> logger" where
  "info msg lg = emit INFO msg lg"

definition warning :: "string \<Rightarrow> logger \<Rightarrow> logger" where
  "warning msg lg = emit WARNING msg lg"

definition error :: "string \<Rightarrow> logger \<Rightarrow> logger" where
  "error msg lg = emit ERROR msg lg"

text \<open>\<open>caller\<close> is \<^verbatim>\<open>inspect.stack()[1][3]\<close>, the name of the calling function.\<close>

definition critical :: "string \<Rightarrow> string \<Rightarrow> logger \<Rightarrow> logger" where
  "critical caller msg lg =
     emit CRITICAL (''function <'' @ caller @ ''> reported '' @ msg)
       (lg\<lparr>critical_count := critical_count lg + 1\<rparr>)"

definition flush :: "logger \<Rightarrow> logger" where
  "flush lg = lg\<lparr>actions := actions lg @ [FlushProgress, FlushError]\<rparr>"

definition check_file_paths :: "'fs os_api \<Rightarrow> log_constants \<Rightarrow> logger \<Rightarrow> logger" where
  "check_file_paths os lc lg =
     (let lg1 = (if pth_debug_log lg = None
                 then lg\<lparr>pth_debug_log :=
                        Some (join os (parent_pth lc) (lc_debug lc @ ''_'' @ now lc @ lc_extension lc))\<rparr>
                 else lg);
          lg2 = (if pth_progress_log lg1 = None
                 then lg1\<lparr>pth_progress_log :=
                        Some (join os (parent_pth lc) (lc_progress lc @ ''_'' @ now lc @ lc_extension lc))\<rparr>
                 else lg1)
      in (if pth_error_log lg2 = None
          then lg2\<lparr>pth_progress_log :=
                 Some (join os (parent_pth lc) (lc_error lc @ ''_'' @ now lc @ lc_extension lc))\<rparr>
          else lg2))"

text \<open>
  \<^verbatim>\<open>get_file_handlers\<close> opens a (delayed) file handler on a path and remembers it in
  \<^verbatim>\<open>file_handlers\<close>; \<^verbatim>\<open>setup_logging\<close> calls it for the progress, debug and error logs.
\<close>

definition path_str :: "string option \<Rightarrow> string" where
  "path_str p = (case p of None \<Rightarrow> ''None'' | Some s \<Rightarrow> s)"

definition get_file_handlers :: "string option \<Rightarrow> logger \<Rightarrow> logger" where
  "get_file_handlers pth lg = lg\<lparr>file_handlers := file_handlers lg @ [path_str pth]\<rparr>"

definition setup_logging :: "logger \<Rightarrow> logger" where
  "setup_logging lg =
     get_file_handlers (pth_error_log lg)
       (get_file_handlers (pth_debug_log lg)
         (get_file_handlers (pth_progress_log lg) lg))"

definition initial_log_messages :: "logger \<Rightarrow> logger" where
  "initial_log_messages lg =
     (let lg1 = info (''Path for debug log is '' @ path_str (pth_debug_log lg)
                   @ '' and will be created if any WARNING messages occur'') lg;
          lg2 = info (''Path for process log is '' @ path_str (pth_progress_log lg)
                   @ '' and will contain all INFO and higher messages'') lg1;
          lg3 = info (''Path for error log is '' @ path_str (pth_error_log lg)
                   @ '' and will be created if any ERROR messages occur'') lg2;
          lg4 = debug (''Stream output is going to stdout which will only be displayed if ''
                   @ ''DEBUG MODE is True and currently it is '' @ str_bool (debug_mode lg)) lg3
      in lg4\<lparr>actions := actions lg4 @ [FlushProgress]\<rparr>)"

definition close_logging :: "logger \<Rightarrow> logger" where
  "close_logging lg =
     lg\<lparr>actions := actions lg @ [FlushProgress, FlushError, RemoveDebugHandler]
            @ map CloseHandler (rev (file_handlers lg))\<rparr>"

definition counts_report :: "int \<Rightarrow> int \<Rightarrow> int \<Rightarrow> string" where
  "counts_report w e c =
     ''Log file closing, there were the following number of important messages: '' @ [NL]
     @ [TAB] @ '' - '' @ str_int w @ '' Warning Messages that may be of concern'' @ [NL]
     @ [TAB] @ '' - '' @ str_int e
     @ '' Error Messages that may have stopped the results being produced'' @ [NL]
     @ [TAB] @ '' - '' @ str_int c @ '' Critical Messages''"

definition logging_final_report_and_closure :: "logger \<Rightarrow> logger" where
  "logging_final_report_and_closure lg =
     (let lg1 = (if sum_list [warning_count lg, error_count lg, critical_count lg] > 1
                 then emit INFO
                        (counts_report (warning_count lg) (error_count lg) (critical_count lg)) lg
                 else emit INFO ''Log file closing, there were 0 important messages'' lg);
          lg2 = emit DEBUG ''Logging stopped'' lg1
      in lg2\<lparr>actions := actions lg2 @ [Shutdown]\<rparr>)"

text \<open>
  \<^verbatim>\<open>Logger.__init__\<close>. It raises what \<^verbatim>\<open>check_directory\<close> raises. The three log paths are
  joined to the directory asked for, not to the one \<^verbatim>\<open>check_directory\<close> returned.
\<close>

definition logger_init ::
  "'fs os_api \<Rightarrow> log_constants \<Rightarrow> string \<Rightarrow> string \<Rightarrow> bool \<Rightarrow> 'fs \<Rightarrow> (exn + logger) \<times> 'fs" where
  "logger_init os lc pth uid dbg fs =
     (case check_directory os pth ''Logs'' fs of
        (Inl e, fs') \<Rightarrow> (Inl e, fs')
      | (Inr checked, fs') \<Rightarrow>
          (let lg = \<lparr> warning_count = 0, error_count = 0, critical_count = 0,
                      pth_logs = checked,
                      pth_debug_log = Some (join os pth (''DEBUG_'' @ uid @ ''.log'')),
                      pth_progress_log = Some (join os pth (''INFO_'' @ uid @ ''.log'')),
                      pth_error_log = Some (join os pth (''ERROR_'' @ uid @ ''.log'')),
                      debug_mode = dbg, file_handlers = [], actions = [] \<rparr>
           in (Inr (initial_log_messages (setup_logging (check_file_paths os lc lg))), fs')))"

text \<open>
  The lifetime of a \<^verbatim>\<open>Logger\<close> after \<^verbatim>\<open>__init__\<close>: any sequence of calls of its methods.
  \<^verbatim>\<open>__del__\<close> and \<^verbatim>\<open>__exit__\<close> only call \<^verbatim>\<open>logging_final_report_and_closure\<close>.
\<close>

datatype 'fs method_call =
  Call_check_file_paths "'fs os_api" log_constants
  | Call_setup_logging
  | Call_initial_log_messages
  | Call_close_logging
  | Call_get_file_handlers "string option"
  | Call_debug string
  | Call_info string
  | Call_warning string
  | Call_error string
  | Call_critical string string
  | Call_flush
  | Call_logging_final_report_and_closure
  | Call_del
  | Call_exit

fun run_call :: "'fs method_call \<Rightarrow> logger \<Rightarrow> logger" where
  "run_call (Call_check_file_paths os lc) lg = check_file_paths os lc lg"
| "run_call Call_setup_logging lg = setup_logging lg"
| "run_call Call_initial_log_messages lg = initial_log_messages lg"
| "run_call Call_close_logging lg = close_logging lg"
| "run_call (Call_get_file_handlers p) lg = get_file_handlers p lg"
| "run_call (Call_debug m) lg = debug m lg"
| "run_call (Call_info m) lg = info m lg"
| "run_call (Call_warning m) lg = warning m lg"
| "run_call (Call_error m) lg = error m lg"
| "run_call (Call_critical caller m) lg = critical caller m lg"
| "run_call Call_flush lg = flush lg"
| "run_call Call_logging_final_report_and_closure lg = logging_final_report_and_closure lg"
| "run_call Call_del lg = logging_final_report_and_closure lg"
| "run_call Call_exit lg = logging_final_report_and_closure lg"

fun run_calls :: "'fs method_call list \<Rightarrow> logger \<Rightarrow> logger" where
  "run_calls [] lg = lg"
| "run_calls (c # cs) lg = run_calls cs (run_call c lg)"

fun is_critical :: "'fs method_call \<Rightarrow> bool" where
  "is_critical (Call_critical caller m) = True"
| "is_critical c = False"

text \<open>The message of the closing report: the last \<open>INFO\<close> record a logger was handed.\<close>

fun last_info :: "log_action list \<Rightarrow> string option" where
  "last_info [] = None"
| "last_info (Emit INFO m # as) = (case last_info as of None \<Rightarrow> Some m | Some m' \<Rightarrow> Some m')"
| "last_info (a # as) = last_info as"

definition demo_constants :: log_constants where
  "demo_constants = \<lparr> lc_debug = ''DEBUG'', lc_progress = ''INFO'', lc_error = ''ERROR'',
       lc_extension = ''.log'', parent_pth = ''/pkg'', now = ''20190101_000000'' \<rparr>"


definition demo_logger :: logger where
  "demo_logger = \<lparr> warning_count = 0, error_count = 0, critical_count = 0,
       pth_logs = ''/var/log'', pth_debug_log = Some ''/var/log/DEBUG_u1.log'',
       pth_progress_log = Some ''/var/log/INFO_u1.log'',
       pth_error_log = Some ''/var/log/ERROR_u1.log'',
       debug_mode = False, file_handlers = [], actions = [] \<rparr>"

section \<open>The pandas and collections operations that Main.py uses\<close>

text \<open>
  A \<^verbatim>\<open>DataFrame\<close> (or a \<^verbatim>\<open>Series\<close>, a frame of one column): its column labels and its
  rows in index order, each row a label and one cell per column. Only the operations of
  \<^verbatim>\<open>main\<close> are modelled, on labels that are strings.
\<close>

datatype cell = NaN | Flag bool | Str string

record frame =
  columns :: "string list"
  rows :: "(string \<times> cell list) list"

definition index :: "frame \<Rightarrow> string list" where
  "index f = map fst (rows f)"

text \<open>\<^verbatim>\<open>pd.DataFrame(index=idx, columns=cols)\<close>: every cell is \<^verbatim>\<open>NaN\<close>.\<close>

definition DataFrame :: "string list \<Rightarrow> string list \<Rightarrow> frame" where
  "DataFrame idx cols = \<lparr> columns = cols, rows = map (\<lambda>r. (r, map (\<lambda>c. NaN) cols)) idx \<rparr>"


text \<open>Setting with enlargement: a label that is missing is appended, filled with \<^verbatim>\<open>NaN\<close>.\<close>

definition add_row :: "string \<Rightarrow> frame \<Rightarrow> frame" where
  "add_row r f = (if r \<in> set (index f) then f
                  else f\<lparr>rows := rows f @ [(r, map (\<lambda>c. NaN) (columns f))]\<rparr>)"

definition add_column :: "string \<Rightarrow> frame \<Rightarrow> frame" where
  "add_column c f = (if c \<in> set (columns f) then f
                     else f\<lparr>columns := columns f @ [c],
                            rows := map (\<lambda>(r, cs). (r, cs @ [NaN])) (rows f)\<rparr>)"

definition set_cells :: "string \<Rightarrow> string \<Rightarrow> cell \<Rightarrow> frame \<Rightarrow> frame" where
  "set_cells r c v f =
     f\<lparr>rows := map (\<lambda>(r', cs). if r' = r
                       then (r', map (\<lambda>(c', x). if c' = c then v else x) (zip (columns f) cs))
                       else (r', cs)) (rows f)\<rparr>"

text \<open>\<^verbatim>\<open>f.loc[r, c] = v\<close>\<close>

definition loc_set :: "string \<Rightarrow> string \<Rightarrow> cell \<Rightarrow> frame \<Rightarrow> frame" where
  "loc_set r c v f = set_cells r c v (add_row r (add_column c f))"

text \<open>\<^verbatim>\<open>f.loc[r] = v\<close>: every cell of the row, the row appended when it is missing.\<close>

definition loc_set_row :: "string \<Rightarrow> cell \<Rightarrow> frame \<Rightarrow> frame" where
  "loc_set_row r v f =
     (let g = add_row r f
      in g\<lparr>rows := map (\<lambda>(r', cs). if r' = r then (r', map (\<lambda>x. v) cs) else (r', cs)) (rows g)\<rparr>)"


text \<open>
  \<^verbatim>\<open>pd.concat([a, b], axis=0)\<close>: the rows of \<open>a\<close>, then those of \<open>b\<close>, over the union of
  the columns.
\<close>

definition realign :: "string list \<Rightarrow> frame \<Rightarrow> (string \<times> cell list) list" where
  "realign cols f =
     map (\<lambda>(r, cs). (r, map (\<lambda>c. case map_of (zip (columns f) cs) c of
                                     None \<Rightarrow> NaN | Some x \<Rightarrow> x) cols)) (rows f)"

definition concat_rows :: "frame \<Rightarrow> frame \<Rightarrow> frame" where
  "concat_rows a b =
     (let cols = columns a @ filter (\<lambda>c. c \<notin> set (columns a)) (columns b)
      in \<lparr> columns = cols, rows = realign cols a @ realign cols b \<rparr>)"

text \<open>
  \<^verbatim>\<open>pd.concat(fs, axis=1, sort=True)\<close>: an outer join on the index. The columns of all
  frames side by side; the index is the common index when all frames have the same one,
  and the sorted union of the indexes otherwise; a frame without a row gives \<^verbatim>\<open>NaN\<close>.
\<close>

definition joined_index :: "frame list \<Rightarrow> string list" where
  "joined_index fs =
     (case fs of
        [] \<Rightarrow> []
      | f # gs \<Rightarrow> if list_all (\<lambda>g. index g = index f) gs then index f
                  else sort (remdups (concat (map index fs))))"

definition concat_columns :: "frame list \<Rightarrow> frame" where
  "concat_columns fs =
     \<lparr> columns = concat (map columns fs),
       rows = map (\<lambda>r. (r, concat (map (\<lambda>f. case map_of (rows f) r of
                                              None \<Rightarrow> map (\<lambda>c. NaN) (columns f)
                                            | Some cs \<Rightarrow> cs) fs)))
                  (joined_index fs) \<rparr>"

text \<open>
  \<^verbatim>\<open>collections.OrderedDict\<close>: the items in insertion order. Assigning to a key that is
  present replaces its value where it stands; a new key goes to the end.
\<close>

type_synonym ('k, 'v) ordered_dict = "('k \<times> 'v) list"

fun od_set :: "'k \<Rightarrow> 'v \<Rightarrow> ('k, 'v) ordered_dict \<Rightarrow> ('k, 'v) ordered_dict" where
  "od_set k v [] = [(k, v)]"
| "od_set k v ((k', v') # d) = (if k' = k then (k, v) # d else (k', v') # od_set k v d)"

definition keys :: "('k, 'v) ordered_dict \<Rightarrow> 'k list" where
  "keys d = map fst d"

text \<open>\<^verbatim>\<open>xs[i]\<close> for a list: a negative index counts from the end.\<close>

definition py_index :: "'a list \<Rightarrow> int \<Rightarrow> exn + 'a" where
  "py_index xs i =
     (if 0 \<le> i \<and> i < int (length xs) then Inr (xs ! nat i)
      else if i < 0 \<and> - int (length xs) \<le> i then Inr (xs ! nat (int (length xs) + i))
      else Inl IndexError)"

text \<open>\<^verbatim>\<open>sep.join(xs)\<close>\<close>

fun str_join :: "string \<Rightarrow> string list \<Rightarrow> string" where
  "str_join sep [] = []"
| "str_join sep [x] = x"
| "str_join sep (x # y # ys) = x @ sep @ str_join sep (y # ys)"


section \<open>Main.py: the collaborators of main\<close>

text \<open>
  \<^verbatim>\<open>optimisation.constants\<close>, \<^verbatim>\<open>optimisation.psse\<close> and \<^verbatim>\<open>optimisation.file_handling\<close> are
  not among the sources. What \<^verbatim>\<open>main\<close> reads from them and calls in them is a parameter,
  gathered in an \<open>engine\<close>. \<open>'net\<close> is the working case of the simulation engine (the
  network and its solution), \<open>'dat\<close> a results object (\<^verbatim>\<open>BusData\<close>, \<^verbatim>\<open>BranchData\<close>, ...),
  \<open>'cont\<close> a \<^verbatim>\<open>Contingency\<close> object. A call returns the objects it may have changed.
  The calls are taken to return: an exception raised inside them is not modelled.
\<close>

datatype data_class =
  BusData
  | BranchData int "bool option"
  | Tx3Data
  | Tx3WndData
  | ShuntData bool
  | MachineData

datatype df_attr = df_voltage_steady | df_voltage_step | df_state | df_status | df_loading | df

datatype threshold = cont_step_change_limit | reactor_step_change_limit

datatype sheet_name =
  voltage_steady | voltage_step | busbars | circuit_status | circuit_loading
  | tx2_status | tx2_loading | tx3 | tx3_wind_status | tx3_wind_loading
  | fixed_shunts | switched_shunts | machine_data_sheet

record 'dat data_sets =
  bus_data :: 'dat
  circuit_data :: 'dat
  tx2_data :: 'dat
  tx3_data :: 'dat
  tx3_wind_data :: 'dat
  fixed_shunt_data :: 'dat
  switched_shunt_data :: 'dat
  machine_data :: 'dat

record ('net, 'dat, 'cont) engine =
  bc :: string
  convergent_text :: string
  excel_message :: string
  excel_convergence :: string
  excel_sheet :: "sheet_name \<Rightarrow> string"
  read_case :: "string \<Rightarrow> 'net"
  define_bus_subsystem :: "'net \<Rightarrow> 'net"
  run_load_flow :: "'net \<Rightarrow> 'net \<times> bool \<times> int list"
  new_data :: "data_class \<Rightarrow> 'net \<Rightarrow> 'dat"
  contingency_names :: "string \<Rightarrow> string list"
  new_contingency :: "string \<Rightarrow> string \<Rightarrow> 'cont"
  voltage_control_contingency :: "'cont \<Rightarrow> bool"
  setup_contingency :: "'cont \<Rightarrow> 'dat data_sets \<Rightarrow> 'net \<Rightarrow> 'cont \<times> 'dat data_sets \<times> 'net"
  test_contingency :: "'cont \<Rightarrow> 'dat data_sets \<Rightarrow> 'net \<Rightarrow> 'cont \<times> 'dat data_sets \<times> 'net"
  convergence_message :: "'cont \<Rightarrow> string"
  convergent :: "'cont \<Rightarrow> bool"
  check_compliance :: "'dat \<Rightarrow> string list \<Rightarrow> threshold option \<Rightarrow> frame \<times> 'dat"
  data_frame :: "df_attr \<Rightarrow> 'dat \<Rightarrow> frame"

text \<open>
  \<^item> \<open>bc\<close>, \<open>convergent_text\<close>: \<^verbatim>\<open>constants.Contingency.bc\<close> and \<^verbatim>\<open>.convergent\<close>;
    \<open>excel_message\<close>, \<open>excel_convergence\<close>, \<open>excel_sheet\<close>: the names in \<^verbatim>\<open>constants.Excel\<close>
    (\<open>machine_data_sheet\<close> stands for \<^verbatim>\<open>constants.Excel.machine_data\<close>);
    the two limits of \<^verbatim>\<open>constants.EirGridThresholds\<close> are named by \<open>threshold\<close>.
  \<^item> \<open>read_case p\<close>: the working case after the engine has read the SAV file \<open>p\<close>.
  \<^item> \<open>run_load_flow\<close>: the solved case, \<^verbatim>\<open>load_flow_success\<close> and the bus numbers of the
    islanded busbars (the column \<^verbatim>\<open>constants.Busbars.bus\<close> of the frame returned).
  \<^item> \<open>new_data\<close>: the constructors of the results objects, reading the working case.
  \<^item> \<open>contingency_names w\<close>: \<^verbatim>\<open>ImportContingencies(pth=w).contingency_names\<close>;
    \<open>new_contingency w n\<close>: the \<^verbatim>\<open>Contingency\<close> built from \<^verbatim>\<open>group_contingencies_by_name\<close>.
  \<^item> \<open>check_compliance d names limit\<close>: the compliance frame and the object afterwards.
  \<^item> \<open>data_frame a d\<close>: the attribute \<open>a\<close> of a results object.
\<close>

text \<open>
  What \<^verbatim>\<open>main\<close> and the driver do outside themselves, in order: the records handed to the
  logger, the calls on the \<^verbatim>\<open>PsseControl\<close> object and on each contingency, and the call
  of \<^verbatim>\<open>ExportResults\<close> with the path, the sheets and the summary it is given.
\<close>

datatype event =
  LogInfo string
  | LogDebug string
  | LogCritical string
  | LogError string
  | LoadDataCase "string option"
  | DefineBusSubsystem
  | RunLoadFlow
  | ImportContingencies string
  | SetupContingency string
  | TestContingency string
  | ExportResults string "(string, frame) ordered_dict" frame

record 'net world =
  network :: 'net
  trace :: "event list"

definition log_event :: "event \<Rightarrow> 'net world \<Rightarrow> 'net world" where
  "log_event e w = w\<lparr>trace := trace w @ [e]\<rparr>"

fun is_export :: "event \<Rightarrow> bool" where
  "is_export (ExportResults p r c) = True"
| "is_export e = False"

record psse_control =
  loaded_sav :: "string option"

text \<open>
  Modelled from the spec: \<^verbatim>\<open>PsseControl.load_data_case\<close> (optimisation/psse.py is not among
  the sources). The spec speaks of "applying/reverting that change against the loaded
  case", and \<^verbatim>\<open>main\<close> says of the call without a path "it is quicker to just reload the
  SAV case": the call with a path remembers the path and loads the file; the call without
  one loads the file of the remembered path again. The working case is then what the
  file holds, whatever it was before.
\<close>

definition load_data_case ::
  "('net, 'dat, 'cont) engine \<Rightarrow> string option \<Rightarrow> psse_control \<Rightarrow> 'net world
     \<Rightarrow> psse_control \<times> 'net world" where
  "load_data_case eng arg psse w =
     (let p = (case arg of Some q \<Rightarrow> Some q | None \<Rightarrow> loaded_sav psse);
          w1 = log_event (LoadDataCase arg) w
      in (psse\<lparr>loaded_sav := p\<rparr>,
          (case p of None \<Rightarrow> w1 | Some q \<Rightarrow> w1\<lparr>network := read_case eng q\<rparr>)))"

section \<open>Main.py: main\<close>

text \<open>Lines 68 to 76: load the case, define the subsystem, run the base-case load flow.\<close>

definition load_base ::
  "('net, 'dat, 'cont) engine \<Rightarrow> string \<Rightarrow> 'net world
     \<Rightarrow> psse_control \<times> bool \<times> int list \<times> 'net world" where
  "load_base eng psse_sav_case w =
     (let w1 = log_event (LogInfo (''Loading PSSE case '' @ psse_sav_case
                  @ '' and checking convergent'')) w;
          (psse_case, w2) = load_data_case eng (Some psse_sav_case) \<lparr> loaded_sav = None \<rparr> w1;
          w3 = log_event DefineBusSubsystem (w2\<lparr>network := define_bus_subsystem eng (network w2)\<rparr>);
          (net, load_flow_success, islanded_busbars) = run_load_flow eng (network w3);
          w4 = log_event RunLoadFlow (w3\<lparr>network := net\<rparr>)
      in (psse_case, load_flow_success, islanded_busbars, w4))"

definition islanded_msg :: "string \<Rightarrow> int list \<Rightarrow> string" where
  "islanded_msg psse_sav_case islanded_busbars =
     ''The loaded PSSE case '' @ psse_sav_case
       @ '' has the following busbars islanded in the base case:'' @ [NL]
       @ str_join [NL] (map (\<lambda>bus. [TAB] @ '' - Busbar: '' @ str_int bus) islanded_busbars)"

text \<open>Lines 77 to 92: the check of the base case. \<open>Inl\<close> is the \<^verbatim>\<open>ValueError\<close> raised.\<close>

definition base_case_check ::
  "string \<Rightarrow> bool \<Rightarrow> int list \<Rightarrow> 'net world \<Rightarrow> (exn + unit) \<times> 'net world" where
  "base_case_check psse_sav_case load_flow_success islanded_busbars w =
     (if \<not> load_flow_success \<or> \<not> islanded_busbars = [] then
        (if \<not> islanded_busbars = [] then
           (Inl (ValueError ''Check PSSE SAV Case - Islanded busbars''),
            log_event (LogCritical (islanded_msg psse_sav_case islanded_busbars)) w)
         else
           (Inl (ValueError ''Check PSSE SAV Case - Non-Convergent''),
            log_event (LogCritical (''The base PSSE SAV case '' @ psse_sav_case
               @ '' is non-convergent'')) w))
      else (Inr (), log_event (LogInfo ''Initial load flow study convergent'') w))"

text \<open>Lines 95 to 102: the results objects.\<close>

definition read_data_sets :: "('net, 'dat, 'cont) engine \<Rightarrow> 'net \<Rightarrow> 'dat data_sets" where
  "read_data_sets eng net =
     \<lparr> bus_data = new_data eng BusData net,
       circuit_data = new_data eng (BranchData 2 None) net,
       tx2_data = new_data eng (BranchData 6 (Some True)) net,
       tx3_data = new_data eng Tx3Data net,
       tx3_wind_data = new_data eng Tx3WndData net,
       fixed_shunt_data = new_data eng (ShuntData True) net,
       switched_shunt_data = new_data eng (ShuntData False) net,
       machine_data = new_data eng MachineData net \<rparr>"

text \<open>Lines 105 to 117: the contingencies of the workbook, into an \<^verbatim>\<open>OrderedDict\<close>.\<close>

fun import_loop ::
  "('net, 'dat, 'cont) engine \<Rightarrow> string \<Rightarrow> string list \<Rightarrow> (string, 'cont) ordered_dict
     \<Rightarrow> 'net world \<Rightarrow> (string, 'cont) ordered_dict \<times> 'net world" where
  "import_loop eng cont_workbook [] d w = (d, w)"
| "import_loop eng cont_workbook (cont_name # names) d w =
     import_loop eng cont_workbook names
       (od_set cont_name (new_contingency eng cont_workbook cont_name) d)
       (log_event (LogDebug (''Processing contingency: '' @ cont_name)) w)"

definition import_contingencies ::
  "('net, 'dat, 'cont) engine \<Rightarrow> string \<Rightarrow> 'net world
     \<Rightarrow> (string, 'cont) ordered_dict \<times> 'net world" where
  "import_contingencies eng cont_workbook w =
     (let w1 = log_event (LogInfo (''Importing details of all contingencies from workbook ''
                  @ cont_workbook)) w;
          w2 = log_event (ImportContingencies cont_workbook) w1;
          (d, w3) = import_loop eng cont_workbook (contingency_names eng cont_workbook) [] w2
      in (d, log_event (LogInfo (''All contingencies from workbook '' @ cont_workbook
                  @ '' imported'')) w3))"

text \<open>Lines 119 to 153: the loop over the contingencies, and what it changes.\<close>

record ('net, 'dat) loop_state =
  world :: "'net world"
  psse_case :: psse_control
  data :: "'dat data_sets"
  circuit_switching :: "string list"
  shunt_switching :: "string list"
  contingency_convergence :: frame

definition test_one ::
  "('net, 'dat, 'cont) engine \<Rightarrow> string \<times> 'cont \<Rightarrow> ('net, 'dat) loop_state
     \<Rightarrow> ('net, 'dat) loop_state" where
  "test_one eng item st =
     (let name = fst item; contingency = snd item;
          w1 = log_event (LogInfo (''Testing contingency '' @ name)) (world st);
          shunts = (if voltage_control_contingency eng contingency
                    then shunt_switching st @ [name] else shunt_switching st);
          circuits = (if voltage_control_contingency eng contingency
                      then circuit_switching st else circuit_switching st @ [name]);
          (c1, d1, n1) = setup_contingency eng contingency (data st) (network w1);
          w2 = log_event (SetupContingency name) (w1\<lparr>network := n1\<rparr>);
          (c2, d2, n2) = test_contingency eng c1 d1 (network w2);
          w3 = log_event (TestContingency name) (w2\<lparr>network := n2\<rparr>);
          (psse, w4) = load_data_case eng None (psse_case st) w3;
          f1 = loc_set name (excel_message eng) (Str (convergence_message eng c2))
                 (contingency_convergence st);
          f2 = loc_set name (excel_convergence eng) (Flag (convergent eng c2)) f1
      in \<lparr> world = w4, psse_case = psse, data = d2, circuit_switching = circuits,
           shunt_switching = shunts, contingency_convergence = f2 \<rparr>)"

fun contingency_loop ::
  "('net, 'dat, 'cont) engine \<Rightarrow> (string, 'cont) ordered_dict \<Rightarrow> ('net, 'dat) loop_state
     \<Rightarrow> ('net, 'dat) loop_state" where
  "contingency_loop eng [] st = st"
| "contingency_loop eng (item # items) st = contingency_loop eng items (test_one eng item st)"


text \<open>Lines 119 to 127: the state in which the loop starts.\<close>

definition loop_start ::
  "('net, 'dat, 'cont) engine \<Rightarrow> psse_control \<Rightarrow> 'dat data_sets \<Rightarrow> (string, 'cont) ordered_dict
     \<Rightarrow> 'net world \<Rightarrow> ('net, 'dat) loop_state" where
  "loop_start eng psse ds contingency_circuits_details w =
     \<lparr> world = w, psse_case = psse, data = ds, circuit_switching = [], shunt_switching = [],
       contingency_convergence =
         loc_set (bc eng) (excel_convergence eng) (Flag True)
           (loc_set (bc eng) (excel_message eng) (Str (convergent_text eng))
             (DataFrame (keys contingency_circuits_details)
                [excel_message eng, excel_convergence eng])) \<rparr>"

text \<open>Lines 155 to 177: compliance, and the summary.\<close>

record 'dat compliance_result =
  step_change :: frame
  all_cont_names :: "string list"
  checks :: "frame list"
  checked_data :: "'dat data_sets"
  contingency_compliance :: frame

definition confirm_compliance ::
  "('net, 'dat, 'cont) engine \<Rightarrow> ('net, 'dat) loop_state \<Rightarrow> 'dat compliance_result" where
  "confirm_compliance eng st =
     (let ds = data st;
          (df_compliance_cont_step, bus1) =
             check_compliance eng (bus_data ds) (circuit_switching st) (Some cont_step_change_limit);
          (df_compliance_reactor_step, bus2) =
             check_compliance eng bus1 (shunt_switching st) (Some reactor_step_change_limit);
          df_compliance_step_change =
             loc_set_row (bc eng) (Flag True)
               (concat_rows df_compliance_cont_step df_compliance_reactor_step);
          names = [bc eng] @ circuit_switching st @ shunt_switching st;
          (c_bus, bus3) = check_compliance eng bus2 names None;
          (c_circuit, circuit1) = check_compliance eng (circuit_data ds) names None;
          (c_tx2, tx21) = check_compliance eng (tx2_data ds) names None;
          (c_tx3_wind, tx3_wind1) = check_compliance eng (tx3_wind_data ds) names None;
          compliance = [df_compliance_step_change, c_bus, c_circuit, c_tx2, c_tx3_wind]
      in \<lparr> step_change = df_compliance_step_change,
           all_cont_names = names,
           checks = [c_bus, c_circuit, c_tx2, c_tx3_wind],
           checked_data = ds\<lparr>bus_data := bus3, circuit_data := circuit1, tx2_data := tx21,
                             tx3_wind_data := tx3_wind1\<rparr>,
           contingency_compliance =
             concat_columns ([contingency_convergence st] @ compliance) \<rparr>)"

text \<open>Lines 179 to 194: the sheets, in an \<^verbatim>\<open>OrderedDict\<close> keyed by the names of \<^verbatim>\<open>constants.Excel\<close>.\<close>

definition sheet_sources :: "'dat data_sets \<Rightarrow> (sheet_name \<times> df_attr \<times> 'dat) list" where
  "sheet_sources ds =
     [(voltage_steady, df_voltage_steady, bus_data ds),
      (voltage_step, df_voltage_step, bus_data ds),
      (busbars, df_state, bus_data ds),
      (circuit_status, df_status, circuit_data ds),
      (circuit_loading, df_loading, circuit_data ds),
      (tx2_status, df_status, tx2_data ds),
      (tx2_loading, df_loading, tx2_data ds),
      (tx3, df, tx3_data ds),
      (tx3_wind_status, df_status, tx3_wind_data ds),
      (tx3_wind_loading, df_loading, tx3_wind_data ds),
      (fixed_shunts, df_status, fixed_shunt_data ds),
      (switched_shunts, df_status, switched_shunt_data ds),
      (machine_data_sheet, df_loading, machine_data ds)]"

definition results_data ::
  "('net, 'dat, 'cont) engine \<Rightarrow> 'dat data_sets \<Rightarrow> (string, frame) ordered_dict" where
  "results_data eng ds =
     foldl (\<lambda>d (s, a, x). od_set (excel_sheet eng s) (data_frame eng a x) d) [] (sheet_sources ds)"

definition main ::
  "('net, 'dat, 'cont) engine \<Rightarrow> string \<Rightarrow> string \<Rightarrow> string \<Rightarrow> 'net world
     \<Rightarrow> (exn + string) \<times> 'net world" where
  "main eng cont_workbook psse_sav_case target_workbook w =
     (let (psse, load_flow_success, islanded_busbars, w1) = load_base eng psse_sav_case w
      in case base_case_check psse_sav_case load_flow_success islanded_busbars w1 of
           (Inl e, w2) \<Rightarrow> (Inl e, w2)
         | (Inr u, w2) \<Rightarrow>
             (let ds = read_data_sets eng (network w2);
                  (contingency_circuits_details, w3) = import_contingencies eng cont_workbook w2;
                  st = contingency_loop eng contingency_circuits_details
                         (loop_start eng psse ds contingency_circuits_details w3);
                  cr = confirm_compliance eng st;
                  w4 = log_event (ExportResults target_workbook
                         (results_data eng (checked_data cr)) (contingency_compliance cr)) (world st)
              in (Inr target_workbook, w4)))"

section \<open>Main.py: the driver under \<^verbatim>\<open>if __name__ == '__main__'\<close>\<close>

text \<open>
  Lines 213 to 224, after the logger has been set up. \<open>elapsed\<close> gives the text of
  \<^verbatim>\<open>'{:.2f}'.format(time.time()-t1)\<close> for a case. An exception other than \<^verbatim>\<open>ValueError\<close>
  is not caught and ends the loop.
\<close>

fun driver_loop ::
  "('net, 'dat, 'cont) engine \<Rightarrow> string \<Rightarrow> string list \<Rightarrow> string list \<Rightarrow> (string \<Rightarrow> string)
     \<Rightarrow> int list \<Rightarrow> 'net world \<Rightarrow> (exn + unit) \<times> 'net world" where
  "driver_loop eng pth_Contingencies pth_EirGrid_SAV pth_results elapsed [] w = (Inr (), w)"
| "driver_loop eng pth_Contingencies pth_EirGrid_SAV pth_results elapsed (i # selector) w =
     (case py_index pth_EirGrid_SAV i of
        Inl e \<Rightarrow> (Inl e, w)
      | Inr pth_sav \<Rightarrow>
          (case py_index pth_results i of
             Inl e \<Rightarrow> (Inl e, w)
           | Inr pth_res \<Rightarrow>
               (case main eng pth_Contingencies pth_sav pth_res
                       (log_event (LogInfo (''Processing SAV case '' @ pth_sav)) w) of
                  (Inr pth_excel, w1) \<Rightarrow>
                    driver_loop eng pth_Contingencies pth_EirGrid_SAV pth_results elapsed selector
                      (log_event (LogInfo (''SAV case '' @ pth_sav @ '' completed in ''
                         @ elapsed pth_sav @ '', results saved in '' @ pth_res)) w1)
                | (Inl (ValueError m), w1) \<Rightarrow>
                    driver_loop eng pth_Contingencies pth_EirGrid_SAV pth_results elapsed selector
                      (log_event (LogError (''Contingency analysis for the SAV case '' @ pth_sav
                         @ '' could not be completed'')) w1)
                | (Inl e, w1) \<Rightarrow> (Inl e, w1))))"


text \<open>
  The state in which \<^verbatim>\<open>main\<close> enters its loop over the contingencies (line 128), with the
  \<^verbatim>\<open>OrderedDict\<close> it iterates: what \<open>main\<close> above computes up to there.
\<close>

definition loop_entry ::
  "('net, 'dat, 'cont) engine \<Rightarrow> string \<Rightarrow> string \<Rightarrow> 'net world
     \<Rightarrow> (string, 'cont) ordered_dict \<times> ('net, 'dat) loop_state" where
  "loop_entry eng cont_workbook psse_sav_case w =
     (let (psse, load_flow_success, islanded_busbars, w1) = load_base eng psse_sav_case w;
          w2 = snd (base_case_check psse_sav_case load_flow_success islanded_busbars w1);
          ds = read_data_sets eng (network w2);
          (contingency_circuits_details, w3) = import_contingencies eng cont_workbook w2
      in (contingency_circuits_details,
          loop_start eng psse ds contingency_circuits_details w3))"



section \<open>optimisation/data_visualisation.py\<close>













section \<open>An engine to run the definitions on\<close>

text \<open>
  The working case is the list of what has happened to the case since it was read: the
  word \<open>solved\<close> for a load flow, the name of a contingency for its outage. A case file
  named \<open>islanded.sav\<close> has islanded busbars, one named \<open>diverge.sav\<close> does not
  converge, and one named \<open>both.sav\<close> does both. A contingency is its name, its
  convergence flag and the working case it was
  applied to; the contingency \<open>L2\<close> does not converge, and the contingencies whose name
  starts with \<open>shunt\<close> are voltage-control contingencies. A results object is the list
  of the contingencies tested, each with the working case it met.
\<close>

definition demo_sheet :: "sheet_name \<Rightarrow> string" where
  "demo_sheet s = (case s of
       voltage_steady \<Rightarrow> ''V Steady'' | voltage_step \<Rightarrow> ''V Step'' | busbars \<Rightarrow> ''Busbars''
     | circuit_status \<Rightarrow> ''Circuit Status'' | circuit_loading \<Rightarrow> ''Circuit Loading''
     | tx2_status \<Rightarrow> ''TX2 Status'' | tx2_loading \<Rightarrow> ''TX2 Loading'' | tx3 \<Rightarrow> ''TX3''
     | tx3_wind_status \<Rightarrow> ''TX3 Wind Status'' | tx3_wind_loading \<Rightarrow> ''TX3 Wind Loading''
     | fixed_shunts \<Rightarrow> ''Fixed Shunts'' | switched_shunts \<Rightarrow> ''Switched Shunts''
     | machine_data_sheet \<Rightarrow> ''Machines'')"

definition demo_check ::
  "(string \<times> string list) list \<Rightarrow> string list \<Rightarrow> threshold option
     \<Rightarrow> frame \<times> (string \<times> string list) list" where
  "demo_check d names limit =
     (\<lparr> columns = [case limit of None \<Rightarrow> ''Limits'' | Some l \<Rightarrow> ''Step''],
        rows = map (\<lambda>n. (n, [Flag (case limit of
                                     Some cont_step_change_limit \<Rightarrow> n \<noteq> ''L1''
                                   | _ \<Rightarrow> True)])) names \<rparr>, d)"

definition demo_engine ::
  "(string list, (string \<times> string list) list, string \<times> bool \<times> string list) engine" where
  "demo_engine =
     \<lparr> bc = ''BC'', convergent_text = ''Convergent'',
       excel_message = ''Message'', excel_convergence = ''Converged'',
       excel_sheet = demo_sheet,
       read_case = (\<lambda>p. if p = ''islanded.sav'' then [''islanded'']
                         else if p = ''diverge.sav'' then [''diverge'']
                         else if p = ''both.sav'' then [''islanded'', ''diverge''] else []),
       define_bus_subsystem = (\<lambda>net. net),
       run_load_flow = (\<lambda>net. (net @ [''solved''], ''diverge'' \<notin> set net,
                                if ''islanded'' \<in> set net then [101, 102] else [])),
       new_data = (\<lambda>cls net. []),
       contingency_names = (\<lambda>wb. [''L1'', ''shunt1'', ''L2'']),
       new_contingency = (\<lambda>wb n. (n, True, [])),
       voltage_control_contingency = (\<lambda>c. take 5 (fst c) = ''shunt''),
       setup_contingency = (\<lambda>c ds net. (c, ds, net)),
       test_contingency = (\<lambda>c ds net.
          ((fst c, fst c \<noteq> ''L2'', net),
           ds\<lparr>bus_data := bus_data ds @ [(fst c, net)]\<rparr>,
           net @ [fst c])),
       convergence_message = (\<lambda>c. if fst (snd c) then ''Convergent'' else ''Non-convergent''),
       convergent = (\<lambda>c. fst (snd c)),
       check_compliance = demo_check,
       data_frame = (\<lambda>a d. \<lparr> columns = [], rows = map (\<lambda>x. (fst x, [])) d \<rparr>) \<rparr>"

definition demo_world :: "string list world" where
  "demo_world = \<lparr> network = [], trace = [] \<rparr>"


text \<open>
  The \<^verbatim>\<open>OrderedDict\<close> and the state with which \<open>main\<close> enters its loop, for the engine
  above, the case \<open>ok.sav\<close> and an empty trace.
\<close>

definition demo_items :: "(string, string \<times> bool \<times> string list) ordered_dict" where
  "demo_items = [(''L1'', ''L1'', True, []), (''shunt1'', ''shunt1'', True, []),
                 (''L2'', ''L2'', True, [])]"

definition demo_start :: "(string list, (string \<times> string list) list) loop_state" where
  "demo_start =
     \<lparr> world = \<lparr> network = [''solved''],
          trace = [LogInfo ''Loading PSSE case ok.sav and checking convergent'',
                   LoadDataCase (Some ''ok.sav''), DefineBusSubsystem, RunLoadFlow,
                   LogInfo ''Initial load flow study convergent'',
                   LogInfo ''Importing details of all contingencies from workbook cont.xlsx'',
                   ImportContingencies ''cont.xlsx'',
                   LogDebug ''Processing contingency: L1'',
                   LogDebug ''Processing contingency: shunt1'',
                   LogDebug ''Processing contingency: L2'',
                   LogInfo ''All contingencies from workbook cont.xlsx imported''] \<rparr>,
       psse_case = \<lparr> loaded_sav = Some ''ok.sav'' \<rparr>,
       data = \<lparr> bus_data = [], circuit_data = [], tx2_data = [], tx3_data = [],
                tx3_wind_data = [], fixed_shunt_data = [], switched_shunt_data = [],
                machine_data = [] \<rparr>,
       circuit_switching = [], shunt_switching = [],
       contingency_convergence =
         \<lparr> columns = [''Message'', ''Converged''],
           rows = [(''L1'', [NaN, NaN]), (''shunt1'', [NaN, NaN]), (''L2'', [NaN, NaN]),
                   (''BC'', [Str ''Convergent'', Flag True])] \<rparr> \<rparr>"

section \<open>Properties of check_directory and of the Logger\<close>

lemma demo_os_creates: "makedirs_creates demo_os"
  by (auto simp: makedirs_creates_def demo_os_def split: if_splits)

text \<open>
  Claim C8. Provided \<^verbatim>\<open>os.makedirs\<close> leaves the directory in place whenever it returns,
  \<^verbatim>\<open>check_directory\<close> returns a path that is a directory of the file system it leaves:
  the path given when that is a directory already or can be created, and otherwise the
  default folder joined to the package directory. It raises \<^verbatim>\<open>OSError\<close> only when the
  path given is no directory and cannot be created and the same holds of the default
  folder. When the path given is a directory already the file system is left as it was.
\<close>

theorem check_directory_existing:
  assumes "makedirs_creates os"
  shows "(case check_directory os p d fs of
            (Inr q, fs') \<Rightarrow>
               isdir os fs' q \<and>
               q = (if isdir os fs p \<or> fst (makedirs os p fs) then p
                    else join os (script_pth os) d)
          | (Inl e, fs') \<Rightarrow>
               \<not> isdir os fs p \<and> \<not> fst (makedirs os p fs) \<and>
               \<not> isdir os (snd (makedirs os p fs)) (join os (script_pth os) d) \<and>
               \<not> fst (makedirs os (join os (script_pth os) d) (snd (makedirs os p fs))) \<and>
               e = OSError (unable_msg (join os (script_pth os) d)))
         \<and> (isdir os fs p \<longrightarrow> check_directory os p d fs = (Inr p, fs))"
  using assms
  by (auto simp: check_directory_def makedirs_creates_def Let_def
           split: prod.splits bool.splits sum.splits if_splits)

theorem check_directory_existing_witness:
  "makedirs_creates demo_os \<and>
   check_directory demo_os ''/ro/logs'' ''Logs'' [''/tmp''] =
     (Inr ''/pkg/optimisation/Logs'', [''/pkg/optimisation/Logs'', ''/tmp'']) \<and>
   isdir demo_os [''/pkg/optimisation/Logs'', ''/tmp''] ''/pkg/optimisation/Logs'' \<and>
   isdir demo_os [''/tmp''] ''/tmp'' \<and>
   check_directory demo_os ''/tmp'' ''Logs'' [''/tmp''] = (Inr ''/tmp'', [''/tmp''])"
  using check_directory_existing [OF demo_os_creates,
          where p = "''/ro/logs''" and d = "''Logs''" and fs = "[''/tmp'']"]
    check_directory_existing [OF demo_os_creates,
          where p = "''/tmp''" and d = "''Logs''" and fs = "[''/tmp'']"]
    demo_os_creates
  by (simp add: check_directory_def demo_os_def Let_def)

lemma run_call_counts:
  "warning_count (run_call c lg) = warning_count lg \<and>
   error_count (run_call c lg) = error_count lg \<and>
   critical_count (run_call c lg) = critical_count lg + (if is_critical c then 1 else 0)"
  by (cases c)
     (simp_all add: check_file_paths_def setup_logging_def get_file_handlers_def
        initial_log_messages_def close_logging_def debug_def info_def warning_def error_def
        critical_def flush_def logging_final_report_and_closure_def emit_def Let_def)

lemma run_calls_counts:
  "warning_count (run_calls cs lg) = warning_count lg \<and>
   error_count (run_calls cs lg) = error_count lg \<and>
   critical_count (run_calls cs lg) = critical_count lg + int (length (filter is_critical cs))"
  by (induction cs arbitrary: lg) (simp_all add: run_call_counts)

lemma logger_init_counts:
  "logger_init os lc pth uid dbg fs = (Inr lg, fs') \<Longrightarrow>
   warning_count lg = 0 \<and> error_count lg = 0 \<and> critical_count lg = 0"
  by (auto simp: logger_init_def check_file_paths_def setup_logging_def get_file_handlers_def
        initial_log_messages_def info_def debug_def emit_def Let_def
      split: prod.splits sum.splits)

text \<open>
  Claim C9. For a \<^verbatim>\<open>Logger\<close> that \<^verbatim>\<open>__init__\<close> has built, after any sequence \<open>cs\<close> of calls
  of its methods \<^verbatim>\<open>warning_count\<close> and \<^verbatim>\<open>error_count\<close> are 0 and \<^verbatim>\<open>critical_count\<close> is the
  number of calls of \<^verbatim>\<open>critical\<close> among them. Call by call, on any logger \<open>lg0\<close>: no
  method changes \<^verbatim>\<open>warning_count\<close> or \<^verbatim>\<open>error_count\<close>, \<^verbatim>\<open>critical\<close> adds exactly 1 to
  \<^verbatim>\<open>critical_count\<close> and every other method leaves it as it is.
\<close>

theorem logger_counters:
  assumes "logger_init os lc pth uid dbg fs = (Inr lg, fs')"
  shows "warning_count (run_calls cs lg) = 0 \<and> error_count (run_calls cs lg) = 0 \<and>
         critical_count (run_calls cs lg) = int (length (filter is_critical cs)) \<and>
         warning_count (run_call c lg0) = warning_count lg0 \<and>
         error_count (run_call c lg0) = error_count lg0 \<and>
         critical_count (run_call c lg0) = critical_count lg0 + (if is_critical c then 1 else 0)"
  using logger_init_counts [OF assms] run_calls_counts [of cs lg] run_call_counts [of c lg0]
  by simp

theorem logger_counters_witness:
  "\<exists>lg fs'. logger_init demo_os demo_constants ''/var/log'' ''u1'' False [] = (Inr lg, fs') \<and>
     warning_count (run_calls [Call_warning ''w'', Call_error ''e'', Call_critical ''main'' ''c'',
        Call_del :: string list method_call] lg) = 0 \<and>
     error_count (run_calls [Call_warning ''w'', Call_error ''e'', Call_critical ''main'' ''c'',
        Call_del :: string list method_call] lg) = 0 \<and>
     critical_count (run_calls [Call_warning ''w'', Call_error ''e'', Call_critical ''main'' ''c'',
        Call_del :: string list method_call] lg) = 1 \<and>
     critical_count (run_call (Call_critical ''main'' ''c'' :: string list method_call) demo_logger) = 1"
proof -
  obtain lg fs' where i:
    "logger_init demo_os demo_constants ''/var/log'' ''u1'' False [] = (Inr lg, fs')"
    by (simp add: logger_init_def check_directory_def demo_os_def Let_def)
  from logger_counters [OF i, where cs = "[Call_warning ''w'', Call_error ''e'',
      Call_critical ''main'' ''c'', Call_del :: string list method_call]"
      and c = "Call_critical ''main'' ''c'' :: string list method_call" and ?lg0.0 = demo_logger] i
  show ?thesis by (simp add: demo_logger_def)
qed

lemma last_info_append:
  "last_info (as @ [Emit INFO m, Emit DEBUG m', Shutdown]) = Some m"
  by (induction as rule: last_info.induct) simp_all

lemma counts_report_neq:
  "counts_report w e c \<noteq> ''Log file closing, there were 0 important messages''"
  by (simp add: counts_report_def)

text \<open>
  Claim C10. The closing report of \<^verbatim>\<open>logging_final_report_and_closure\<close> is the text with
  the three counts exactly when the sum of \<^verbatim>\<open>warning_count\<close>, \<^verbatim>\<open>error_count\<close> and
  \<^verbatim>\<open>critical_count\<close> is greater than 1; when the sum is exactly 1 the report says that
  there were 0 important messages.
\<close>

theorem final_report_threshold:
  "(last_info (actions (logging_final_report_and_closure lg))
      = Some (counts_report (warning_count lg) (error_count lg) (critical_count lg))
    \<longleftrightarrow> 1 < warning_count lg + error_count lg + critical_count lg) \<and>
   (warning_count lg + error_count lg + critical_count lg = 1 \<longrightarrow>
    last_info (actions (logging_final_report_and_closure lg))
      = Some ''Log file closing, there were 0 important messages'')"
  using counts_report_neq [of "warning_count lg" "error_count lg" "critical_count lg"]
  by (auto simp: logging_final_report_and_closure_def emit_def Let_def last_info_append)

theorem final_report_threshold_witness:
  "warning_count (critical ''main'' ''boom'' demo_logger)
     + error_count (critical ''main'' ''boom'' demo_logger)
     + critical_count (critical ''main'' ''boom'' demo_logger) = 1 \<and>
   last_info (actions (logging_final_report_and_closure (critical ''main'' ''boom'' demo_logger)))
     = Some ''Log file closing, there were 0 important messages''"
  using final_report_threshold [of "critical ''main'' ''boom'' demo_logger"]
  by (simp add: critical_def emit_def demo_logger_def)

section \<open>Properties of frames\<close>
























subsection \<open>One pass of the loop\<close>

lemma trace_test_one:
  "trace (world (test_one eng item st)) =
     trace (world st) @ [LogInfo (''Testing contingency '' @ fst item),
       SetupContingency (fst item), TestContingency (fst item), LoadDataCase None]"
  by (simp add: test_one_def load_data_case_def log_event_def Let_def
      split: prod.splits option.splits)











subsection \<open>The whole loop\<close>


lemma trace_contingency_loop:
  "trace (world (contingency_loop eng items st)) =
     trace (world st) @
     concat (map (\<lambda>item. [LogInfo (''Testing contingency '' @ fst item),
        SetupContingency (fst item), TestContingency (fst item), LoadDataCase None]) items)"
  by (induction items arbitrary: st) (simp_all add: trace_test_one)







subsection \<open>The import and the start of the loop\<close>





lemma trace_import_loop:
  "trace (snd (import_loop eng cw names d w)) =
     trace w @ map (\<lambda>n. LogDebug (''Processing contingency: '' @ n)) names"
  by (induction names arbitrary: d w) (simp_all add: log_event_def)








section \<open>Properties of main and of the driver\<close>


lemma load_base_eq:
  "run_load_flow eng (define_bus_subsystem eng (read_case eng sav)) = (net, ok, islanded) \<Longrightarrow>
   load_base eng sav w =
     (\<lparr> loaded_sav = Some sav \<rparr>, ok, islanded,
      w\<lparr>network := net,
        trace := trace w @ [LogInfo (''Loading PSSE case '' @ sav @ '' and checking convergent''),
                 LoadDataCase (Some sav), DefineBusSubsystem, RunLoadFlow]\<rparr>)"
  by (simp add: load_base_def load_data_case_def log_event_def Let_def)

text \<open>
  Claim C1. When the base-case load flow does not converge or reports islanded busbars,
  \<^verbatim>\<open>main\<close> raises \<^verbatim>\<open>ValueError\<close>: the one for islanded busbars whenever there are any, the
  one for non-convergence otherwise. Up to then it has logged, loaded the case, defined
  the subsystem, run the load flow and logged the critical message, and nothing else: no
  contingency has been imported, set up or tested. The driver, at a selected case whose
  paths it finds, catches the error, logs that the analysis of that SAV case could not
  be completed, and goes on with the rest of the selection.
\<close>

theorem base_case_failure_aborts:
  assumes lf: "run_load_flow eng (define_bus_subsystem eng (read_case eng sav)) = (net, ok, islanded)"
      and bad: "\<not> ok \<or> islanded \<noteq> []"
      and i1: "py_index savs i = Inr sav"
      and i2: "py_index ress i = Inr res"
  shows "main eng cw sav tw w =
           (Inl (ValueError (if islanded \<noteq> [] then ''Check PSSE SAV Case - Islanded busbars''
                             else ''Check PSSE SAV Case - Non-Convergent'')),
            w\<lparr>network := net,
              trace := trace w @
                [LogInfo (''Loading PSSE case '' @ sav @ '' and checking convergent''),
                 LoadDataCase (Some sav), DefineBusSubsystem, RunLoadFlow,
                 LogCritical (if islanded \<noteq> [] then islanded_msg sav islanded
                              else ''The base PSSE SAV case '' @ sav @ '' is non-convergent'')]\<rparr>)
         \<and> driver_loop eng cw savs ress el (i # sel) w0 =
             driver_loop eng cw savs ress el sel
               (w0\<lparr>network := net,
                   trace := trace w0 @
                     [LogInfo (''Processing SAV case '' @ sav),
                      LogInfo (''Loading PSSE case '' @ sav @ '' and checking convergent''),
                      LoadDataCase (Some sav), DefineBusSubsystem, RunLoadFlow,
                      LogCritical (if islanded \<noteq> [] then islanded_msg sav islanded
                                   else ''The base PSSE SAV case '' @ sav @ '' is non-convergent''),
                      LogError (''Contingency analysis for the SAV case '' @ sav
                                @ '' could not be completed'')]\<rparr>)"
proof -
  have m: "\<And>w tw. main eng cw sav tw w =
           (Inl (ValueError (if islanded \<noteq> [] then ''Check PSSE SAV Case - Islanded busbars''
                             else ''Check PSSE SAV Case - Non-Convergent'')),
            w\<lparr>network := net,
              trace := trace w @
                [LogInfo (''Loading PSSE case '' @ sav @ '' and checking convergent''),
                 LoadDataCase (Some sav), DefineBusSubsystem, RunLoadFlow,
                 LogCritical (if islanded \<noteq> [] then islanded_msg sav islanded
                              else ''The base PSSE SAV case '' @ sav @ '' is non-convergent'')]\<rparr>)"
    using bad by (auto simp: main_def load_base_eq [OF lf] base_case_check_def log_event_def)
  show ?thesis
    by (simp add: m i1 i2 log_event_def)
qed

lemma demo_both:
  "run_load_flow demo_engine (define_bus_subsystem demo_engine (read_case demo_engine ''both.sav''))
     = ([''islanded'', ''diverge'', ''solved''], False, [101, 102])"
  by (simp add: demo_engine_def)

theorem base_case_failure_aborts_witness:
  "fst (main demo_engine ''cont.xlsx'' ''both.sav'' ''out.xlsx'' demo_world)
     = Inl (ValueError ''Check PSSE SAV Case - Islanded busbars'') \<and>
   trace (snd (main demo_engine ''cont.xlsx'' ''both.sav'' ''out.xlsx'' demo_world)) =
     [LogInfo ''Loading PSSE case both.sav and checking convergent'',
      LoadDataCase (Some ''both.sav''), DefineBusSubsystem, RunLoadFlow,
      LogCritical (islanded_msg ''both.sav'' [101, 102])] \<and>
   driver_loop demo_engine ''cont.xlsx'' [''both.sav'', ''ok.sav''] [''r0.xlsx'', ''r1.xlsx'']
       (\<lambda>p. ''1.00'') [0] demo_world =
     (Inr (),
      \<lparr> network = [''islanded'', ''diverge'', ''solved''],
        trace = [LogInfo ''Processing SAV case both.sav'',
                 LogInfo ''Loading PSSE case both.sav and checking convergent'',
                 LoadDataCase (Some ''both.sav''), DefineBusSubsystem, RunLoadFlow,
                 LogCritical (islanded_msg ''both.sav'' [101, 102]),
                 LogError ''Contingency analysis for the SAV case both.sav could not be completed''] \<rparr>)"
proof -
  have i1: "py_index [''both.sav'', ''ok.sav''] 0 = Inr ''both.sav''"
    by (simp add: py_index_def)
  have i2: "py_index [''r0.xlsx'', ''r1.xlsx''] 0 = Inr ''r0.xlsx''"
    by (simp add: py_index_def)
  have bad: "\<not> False \<or> [101, 102 :: int] \<noteq> []" by simp
  from base_case_failure_aborts [OF demo_both bad i1 i2, where cw = "''cont.xlsx''"
      and tw = "''out.xlsx''" and w = demo_world and w0 = demo_world and sel = "[]"
      and el = "\<lambda>p. ''1.00''"]
  show ?thesis by (simp add: demo_world_def)
qed




lemma loop_entry_eq:
  assumes "run_load_flow eng (define_bus_subsystem eng (read_case eng sav)) = (net, ok, islanded)"
  shows "loop_entry eng cw sav w =
           (fst (import_contingencies eng cw
                   (snd (base_case_check sav ok islanded (snd (snd (snd (load_base eng sav w))))))),
            loop_start eng \<lparr> loaded_sav = Some sav \<rparr>
              (read_data_sets eng
                 (network (snd (base_case_check sav ok islanded (snd (snd (snd (load_base eng sav w))))))))
              (fst (import_contingencies eng cw
                   (snd (base_case_check sav ok islanded (snd (snd (snd (load_base eng sav w))))))))
              (snd (import_contingencies eng cw
                   (snd (base_case_check sav ok islanded (snd (snd (snd (load_base eng sav w)))))))))"
  by (simp add: loop_entry_def load_base_eq [OF assms] Let_def split_beta)


lemma main_eq:
  assumes "run_load_flow eng (define_bus_subsystem eng (read_case eng sav)) = (net, True, [])"
  shows "main eng cw sav tw w =
           (Inr tw,
            log_event
              (ExportResults tw
                 (results_data eng (checked_data (confirm_compliance eng
                    (contingency_loop eng (fst (loop_entry eng cw sav w)) (snd (loop_entry eng cw sav w))))))
                 (contingency_compliance (confirm_compliance eng
                    (contingency_loop eng (fst (loop_entry eng cw sav w)) (snd (loop_entry eng cw sav w))))))
              (world (contingency_loop eng (fst (loop_entry eng cw sav w)) (snd (loop_entry eng cw sav w)))))"
  by (simp add: main_def loop_entry_def load_base_eq [OF assms] Let_def split_beta
      base_case_check_def)




lemma demo_base:
  "run_load_flow demo_engine (define_bus_subsystem demo_engine (read_case demo_engine ''ok.sav''))
     = ([''solved''], True, [])"
  by (simp add: demo_engine_def)

lemma demo_loop_entry:
  "loop_entry demo_engine ''cont.xlsx'' ''ok.sav'' demo_world = (demo_items, demo_start)"
  by (simp add: loop_entry_def load_base_def load_data_case_def log_event_def Let_def split_beta
      base_case_check_def import_contingencies_def demo_engine_def demo_world_def
      loop_start_def read_data_sets_def keys_def demo_items_def demo_start_def
      loc_set_def set_cells_def add_row_def add_column_def DataFrame_def index_def)








lemma trace_import_contingencies:
  "trace (snd (import_contingencies eng cw w)) =
     trace w @ [LogInfo (''Importing details of all contingencies from workbook '' @ cw),
                ImportContingencies cw]
       @ map (\<lambda>n. LogDebug (''Processing contingency: '' @ n)) (contingency_names eng cw)
       @ [LogInfo (''All contingencies from workbook '' @ cw @ '' imported'')]"
  by (simp add: import_contingencies_def Let_def split_beta trace_import_loop log_event_def)

lemma trace_loop_entry:
  assumes lf: "run_load_flow eng (define_bus_subsystem eng (read_case eng sav)) = (net, True, [])"
      and le: "loop_entry eng cw sav w = (d, st0)"
  shows "trace (world st0) =
     trace w @ [LogInfo (''Loading PSSE case '' @ sav @ '' and checking convergent''),
                LoadDataCase (Some sav), DefineBusSubsystem, RunLoadFlow,
                LogInfo ''Initial load flow study convergent'',
                LogInfo (''Importing details of all contingencies from workbook '' @ cw),
                ImportContingencies cw]
       @ map (\<lambda>n. LogDebug (''Processing contingency: '' @ n)) (contingency_names eng cw)
       @ [LogInfo (''All contingencies from workbook '' @ cw @ '' imported'')]"
proof -
  from le have "st0 = snd (loop_entry eng cw sav w)" by simp
  then show ?thesis
    by (simp add: loop_entry_eq [OF lf] loop_start_def trace_import_contingencies
        load_base_eq [OF lf] base_case_check_def log_event_def)
qed



subsection \<open>Compliance and export\<close>







lemma od_set_fresh: "k \<notin> set (keys d) \<Longrightarrow> od_set k v d = d @ [(k, v)]"
  by (induction d) (auto simp: keys_def)

lemma foldl_od_set_fresh:
  "distinct (map (\<lambda>x. g (fst x)) xs) \<Longrightarrow> set (map (\<lambda>x. g (fst x)) xs) \<inter> set (keys d) = {} \<Longrightarrow>
   foldl (\<lambda>d (s, a, x). od_set (g s) (h a x) d) d xs =
     d @ map (\<lambda>(s, a, x). (g s, h a x)) xs"
proof (induction xs arbitrary: d)
  case Nil
  then show ?case by simp
next
  case (Cons y xs)
  obtain s a x where y: "y = (s, a, x)" by (cases y)
  from Cons.prems have fresh: "g s \<notin> set (keys d)" by (auto simp: y)
  have "set (map (\<lambda>x. g (fst x)) xs) \<inter> set (keys (d @ [(g s, h a x)])) = {}"
    using Cons.prems by (auto simp: y keys_def)
  moreover have "distinct (map (\<lambda>x. g (fst x)) xs)" using Cons.prems by simp
  ultimately show ?case
    by (simp add: y od_set_fresh [OF fresh] Cons.IH)
qed

lemma results_data_distinct:
  assumes "distinct (map (excel_sheet eng)
     [voltage_steady, voltage_step, busbars, circuit_status, circuit_loading, tx2_status,
      tx2_loading, tx3, tx3_wind_status, tx3_wind_loading, fixed_shunts, switched_shunts,
      machine_data_sheet])"
  shows "results_data eng ds =
     [(excel_sheet eng voltage_steady, data_frame eng df_voltage_steady (bus_data ds)),
      (excel_sheet eng voltage_step, data_frame eng df_voltage_step (bus_data ds)),
      (excel_sheet eng busbars, data_frame eng df_state (bus_data ds)),
      (excel_sheet eng circuit_status, data_frame eng df_status (circuit_data ds)),
      (excel_sheet eng circuit_loading, data_frame eng df_loading (circuit_data ds)),
      (excel_sheet eng tx2_status, data_frame eng df_status (tx2_data ds)),
      (excel_sheet eng tx2_loading, data_frame eng df_loading (tx2_data ds)),
      (excel_sheet eng tx3, data_frame eng df (tx3_data ds)),
      (excel_sheet eng tx3_wind_status, data_frame eng df_status (tx3_wind_data ds)),
      (excel_sheet eng tx3_wind_loading, data_frame eng df_loading (tx3_wind_data ds)),
      (excel_sheet eng fixed_shunts, data_frame eng df_status (fixed_shunt_data ds)),
      (excel_sheet eng switched_shunts, data_frame eng df_status (switched_shunt_data ds)),
      (excel_sheet eng machine_data_sheet, data_frame eng df_loading (machine_data ds))]"
proof -
  have d: "distinct (map (\<lambda>x. excel_sheet eng (fst x)) (sheet_sources ds))"
    using assms by (simp add: sheet_sources_def)
  have e: "set (map (\<lambda>x. excel_sheet eng (fst x)) (sheet_sources ds)) \<inter> set (keys []) = {}"
    by (simp add: keys_def)
  show ?thesis
    unfolding results_data_def foldl_od_set_fresh [OF d e]
    by (simp add: sheet_sources_def)
qed

lemma no_export_in_loop:
  "filter is_export (trace (world (contingency_loop eng items st))) =
     filter is_export (trace (world st))"
  by (simp add: trace_contingency_loop filter_concat comp_def)

lemma no_export_before_loop:
  assumes lf: "run_load_flow eng (define_bus_subsystem eng (read_case eng sav)) = (net, True, [])"
      and le: "loop_entry eng cw sav w = (d, st0)"
  shows "filter is_export (trace (world st0)) = filter is_export (trace w)"
  by (simp add: trace_loop_entry [OF lf le] filter_map comp_def)

text \<open>
  Claim C5. In a run of \<^verbatim>\<open>main\<close> whose base case is accepted, and with thirteen different
  sheet names in \<^verbatim>\<open>constants.Excel\<close>, \<^verbatim>\<open>main\<close> returns the target path after one call of
  \<^verbatim>\<open>ExportResults\<close>, the last thing it does and its only export. The call is given the
  target path, the thirteen sheets in this order (steady voltages, voltage steps,
  busbar state, circuit status, circuit loading, two-winding transformer status and
  loading, three-winding transformer data, winding status and winding loading, fixed
  shunts, switched shunts, machine loading), each with the frame of its results
  object, and the convergence and compliance summary.
\<close>

theorem export_sheets_in_order:
  assumes lf: "run_load_flow eng (define_bus_subsystem eng (read_case eng sav)) = (net, True, [])"
      and dn: "distinct (map (excel_sheet eng)
                 [voltage_steady, voltage_step, busbars, circuit_status, circuit_loading,
                  tx2_status, tx2_loading, tx3, tx3_wind_status, tx3_wind_loading,
                  fixed_shunts, switched_shunts, machine_data_sheet])"
      and le: "loop_entry eng cw sav w = (d, st0)"
      and cr: "cr = confirm_compliance eng (contingency_loop eng d st0)"
      and ds: "ds = checked_data cr"
  shows "main eng cw sav tw w =
           (Inr tw,
            log_event
              (ExportResults tw
                 [(excel_sheet eng voltage_steady, data_frame eng df_voltage_steady (bus_data ds)),
                  (excel_sheet eng voltage_step, data_frame eng df_voltage_step (bus_data ds)),
                  (excel_sheet eng busbars, data_frame eng df_state (bus_data ds)),
                  (excel_sheet eng circuit_status, data_frame eng df_status (circuit_data ds)),
                  (excel_sheet eng circuit_loading, data_frame eng df_loading (circuit_data ds)),
                  (excel_sheet eng tx2_status, data_frame eng df_status (tx2_data ds)),
                  (excel_sheet eng tx2_loading, data_frame eng df_loading (tx2_data ds)),
                  (excel_sheet eng tx3, data_frame eng df (tx3_data ds)),
                  (excel_sheet eng tx3_wind_status, data_frame eng df_status (tx3_wind_data ds)),
                  (excel_sheet eng tx3_wind_loading, data_frame eng df_loading (tx3_wind_data ds)),
                  (excel_sheet eng fixed_shunts, data_frame eng df_status (fixed_shunt_data ds)),
                  (excel_sheet eng switched_shunts, data_frame eng df_status (switched_shunt_data ds)),
                  (excel_sheet eng machine_data_sheet, data_frame eng df_loading (machine_data ds))]
                 (contingency_compliance cr))
              (world (contingency_loop eng d st0)))
       \<and> filter is_export (trace (world (contingency_loop eng d st0))) = filter is_export (trace w)"
proof -
  from le have e: "fst (loop_entry eng cw sav w) = d" "snd (loop_entry eng cw sav w) = st0"
    by simp_all
  have "main eng cw sav tw w =
          (Inr tw, log_event (ExportResults tw (results_data eng ds) (contingency_compliance cr))
                     (world (contingency_loop eng d st0)))"
    by (simp add: main_eq [OF lf] e cr ds)
  moreover have "filter is_export (trace (world (contingency_loop eng d st0)))
                   = filter is_export (trace w)"
    by (simp add: no_export_in_loop no_export_before_loop [OF lf le])
  ultimately show ?thesis
    by (simp only: results_data_distinct [OF dn])
qed

lemma demo_sheets: "excel_sheet demo_engine = demo_sheet"
  by (simp add: demo_engine_def)

lemma demo_sheets_distinct:
  "distinct (map (excel_sheet demo_engine)
     [voltage_steady, voltage_step, busbars, circuit_status, circuit_loading,
      tx2_status, tx2_loading, tx3, tx3_wind_status, tx3_wind_loading,
      fixed_shunts, switched_shunts, machine_data_sheet])"
  by (simp add: demo_sheets demo_sheet_def)

theorem export_sheets_in_order_witness:
  "run_load_flow demo_engine (define_bus_subsystem demo_engine (read_case demo_engine ''ok.sav''))
     = ([''solved''], True, []) \<and>
   loop_entry demo_engine ''cont.xlsx'' ''ok.sav'' demo_world = (demo_items, demo_start) \<and>
   (\<exists>sheets w'.
      main demo_engine ''cont.xlsx'' ''ok.sav'' ''out.xlsx'' demo_world =
        (Inr ''out.xlsx'',
         log_event (ExportResults ''out.xlsx'' sheets
            (contingency_compliance (confirm_compliance demo_engine
               (contingency_loop demo_engine demo_items demo_start)))) w') \<and>
      keys sheets =
        [''V Steady'', ''V Step'', ''Busbars'', ''Circuit Status'', ''Circuit Loading'',
         ''TX2 Status'', ''TX2 Loading'', ''TX3'', ''TX3 Wind Status'', ''TX3 Wind Loading'',
         ''Fixed Shunts'', ''Switched Shunts'', ''Machines''])"
proof -
  note t = export_sheets_in_order [OF demo_base demo_sheets_distinct demo_loop_entry refl refl,
      where tw = "''out.xlsx''", unfolded demo_sheets, THEN conjunct1]
  have "\<exists>sheets w'.
      main demo_engine ''cont.xlsx'' ''ok.sav'' ''out.xlsx'' demo_world =
        (Inr ''out.xlsx'',
         log_event (ExportResults ''out.xlsx'' sheets
            (contingency_compliance (confirm_compliance demo_engine
               (contingency_loop demo_engine demo_items demo_start)))) w') \<and>
      keys sheets =
        [''V Steady'', ''V Step'', ''Busbars'', ''Circuit Status'', ''Circuit Loading'',
         ''TX2 Status'', ''TX2 Loading'', ''TX3'', ''TX3 Wind Status'', ''TX3 Wind Loading'',
         ''Fixed Shunts'', ''Switched Shunts'', ''Machines'']"
    by (rule exI, rule exI, rule conjI, rule t) (simp add: keys_def demo_sheet_def)
  with demo_base demo_loop_entry show ?thesis by blast
qed




subsection \<open>The visualisation script\<close>







end
